theory Spec2Isabelle
  imports Complex_Main
begin

section \<open>Omega3D: kernels, panel collections, right-hand sides and the stepper\<close>

text \<open>
  The element type \<open>S\<close> of the templates (\<open>float\<close> in the program) and \<open>double\<close> are
  both taken as \<^typ>\<open>real\<close>: every operation of the source is kept, in its order, and
  evaluated in exact arithmetic; rounding is outside this development.
  \<open>Int\<close> is \<open>uint32_t\<close> and \<open>size_t\<close> values are natural numbers; where the source
  narrows a \<open>size_t\<close> to \<open>Int\<close> the reduction modulo \<open>2^32\<close> is written out.
  An \<open>assert\<close> that fails ends the operation with an error value.
  Reading a \<open>std::vector\<close> outside its range is undefined in the source; the
  theorems below carry the size conditions under which every read is in range.
\<close>

subsection \<open>Omega3D.h\<close>

type_synonym vec3 = "real \<times> real \<times> real"

text \<open>\<open>std::array<T,Dimensions>\<close> with \<open>Dimensions = 3\<close>.\<close>

type_synonym 'a arr3 = "'a \<times> 'a \<times> 'a"

fun get3 :: "'a arr3 \<Rightarrow> nat \<Rightarrow> 'a" where
  "get3 (a, b, c) d = (if d = 0 then a else if d = 1 then b else c)"

definition u32 :: "nat \<Rightarrow> nat" where
  "u32 k = k mod 2 ^ 32"

datatype elem_t = active | reactive | inert

datatype move_t = lagrangian | bodybound | fixed

text \<open>The assertions of the source, one constructor each.\<close>

datatype error =
    IndexArrayNotMultiple     \<comment> \<open>Index array is not an even multiple of dimensions\<close>
  | ValueArrayNotMultiple     \<comment> \<open>Value array is not an even multiple of panel count\<close>
  | PositionArrayNotMultiple  \<comment> \<open>Position array is not an even multiple of dimensions\<close>
  | BadIndices                \<comment> \<open>Some indicies are bad\<close>
  | ArraySizeMismatch         \<comment> \<open>Array size mismatch; Input array sizes do not match\<close>
  | BadBCCount                \<comment> \<open>Number of boundary conditions is not 1..3\<close>
  | NoBody                    \<comment> \<open>Body pointer has not been set\<close>
  | NoUntransformed           \<comment> \<open>Untransformed positions have not been set\<close>
  | NoCenter                  \<comment> \<open>Have not calculated transformed center, or volume is negative\<close>
  | StrengthSizeMismatch      \<comment> \<open>Strength array is not the same as panel count\<close>
  | NoData                    \<comment> \<open>the unnamed checks of vels_to_rhs_panels\<close>
  | PartialParticle           \<comment> \<open>the unnamed check of add_particles\<close>

subsection \<open>MathHelper.h\<close>

text \<open>
  Modelled from the spec: \<open>length\<close>, \<open>dot_product\<close> and \<open>cross_product\<close> of
  MathHelper.h, which is not among the sources; the Euclidean norm, the inner product
  and the right-handed vector product that the basis construction of the spec uses
  (\<open>normal = tangent-1 \<times> tangent-2\<close>).
\<close>

fun length3 :: "vec3 \<Rightarrow> real" where
  "length3 (x, y, z) = sqrt (x * x + y * y + z * z)"

fun dot_product :: "vec3 \<Rightarrow> vec3 \<Rightarrow> real" where
  "dot_product (a0, a1, a2) (b0, b1, b2) = a0 * b0 + a1 * b1 + a2 * b2"

fun cross_product :: "vec3 \<Rightarrow> vec3 \<Rightarrow> vec3" where
  "cross_product (a0, a1, a2) (b0, b1, b2) =
     (a1 * b2 - a2 * b1, a2 * b0 - a0 * b2, a0 * b1 - a1 * b0)"

fun vadd :: "vec3 \<Rightarrow> vec3 \<Rightarrow> vec3" where
  "vadd (a0, a1, a2) (b0, b1, b2) = (a0 + b0, a1 + b1, a2 + b2)"

fun vsub :: "vec3 \<Rightarrow> vec3 \<Rightarrow> vec3" where
  "vsub (a0, a1, a2) (b0, b1, b2) = (a0 - b0, a1 - b1, a2 - b2)"

fun vscale :: "real \<Rightarrow> vec3 \<Rightarrow> vec3" where
  "vscale c (a0, a1, a2) = (c * a0, c * a1, c * a2)"

subsection \<open>Kernels.h\<close>

text \<open>
  The accumulators \<open>*tu\<close>, \<open>*tv\<close>, \<open>*tw\<close> are passed in as a triple and returned
  updated. The branch without \<open>USE_VC\<close> is the one embedded.
\<close>

definition kernel_0v_0b ::
  "real \<Rightarrow> real \<Rightarrow> real \<Rightarrow> real \<Rightarrow> real \<Rightarrow> real \<Rightarrow> real \<Rightarrow> real \<Rightarrow> real \<Rightarrow> real \<Rightarrow> real
     \<Rightarrow> vec3 \<Rightarrow> vec3" where
  "kernel_0v_0b sx sy sz sr ssx ssy ssz tx ty tz tr acc =
     (case acc of (tu, tv, tw) \<Rightarrow>
      let dx = tx - sx;
          dy = ty - sy;
          dz = tz - sz;
          r2 = dx * dx + dy * dy + dz * dz + sr * sr + tr * tr;
          r2 = 1 / (r2 * sqrt r2);
          dxxw = dz * ssy - dy * ssz;
          dyxw = dx * ssz - dz * ssx;
          dzxw = dy * ssx - dx * ssy
      in (tu + r2 * dxxw, tv + r2 * dyxw, tw + r2 * dzxw))"

definition kernel_0v_0p ::
  "real \<Rightarrow> real \<Rightarrow> real \<Rightarrow> real \<Rightarrow> real \<Rightarrow> real \<Rightarrow> real \<Rightarrow> real \<Rightarrow> real \<Rightarrow> real
     \<Rightarrow> vec3 \<Rightarrow> vec3" where
  "kernel_0v_0p sx sy sz sr ssx ssy ssz tx ty tz acc =
     (case acc of (tu, tv, tw) \<Rightarrow>
      let dx = tx - sx;
          dy = ty - sy;
          dz = tz - sz;
          r2 = dx * dx + dy * dy + dz * dz + sr * sr;
          r2 = 1 / (r2 * sqrt r2);
          dxxw = dz * ssy - dy * ssz;
          dyxw = dx * ssz - dz * ssx;
          dzxw = dy * ssx - dx * ssy
      in (tu + r2 * dxxw, tv + r2 * dyxw, tw + r2 * dzxw))"

definition kernel_2_0p ::
  "real \<Rightarrow> real \<Rightarrow> real \<Rightarrow> real \<Rightarrow> real \<Rightarrow> real \<Rightarrow> real \<Rightarrow> real \<Rightarrow> real
     \<Rightarrow> real \<Rightarrow> real \<Rightarrow> real \<Rightarrow> real \<Rightarrow> real \<Rightarrow> real \<Rightarrow> vec3 \<Rightarrow> vec3" where
  "kernel_2_0p sx0 sy0 sz0 sx1 sy1 sz1 sx2 sy2 sz2 ssx ssy ssz tx ty tz acc =
     (let strx = 0.25 * ssx;
          stry = 0.25 * ssy;
          strz = 0.25 * ssz;
          acc = (let sx = (sx0 + sx1 + sx2) / 3;
                     sy = (sy0 + sy1 + sy2) / 3;
                     sz = (sz0 + sz1 + sz2) / 3
                 in kernel_0v_0p sx sy sz 0 strx stry strz tx ty tz acc);
          acc = (let sx = (4 * sx0 + sx1 + sx2) / 6;
                     sy = (4 * sy0 + sy1 + sy2) / 6;
                     sz = (4 * sz0 + sz1 + sz2) / 6
                 in kernel_0v_0p sx sy sz 0 strx stry strz tx ty tz acc);
          acc = (let sx = (sx0 + 4 * sx1 + sx2) / 6;
                     sy = (sy0 + 4 * sy1 + sy2) / 6;
                     sz = (sz0 + 4 * sz1 + sz2) / 6
                 in kernel_0v_0p sx sy sz 0 strx stry strz tx ty tz acc);
          acc = (let sx = (sx0 + sx1 + 4 * sx2) / 6;
                     sy = (sy0 + sy1 + 4 * sy2) / 6;
                     sz = (sz0 + sz1 + 4 * sz2) / 6
                 in kernel_0v_0p sx sy sz 0 strx stry strz tx ty tz acc)
      in acc)"

text \<open>
  The velocity as the specification words it: \<open>(x_t - x_s) \<times> s / r\<^sup>3\<close> with
  \<open>r\<^sup>2 = |x_t - x_s|\<^sup>2 + core_source\<^sup>2 + core_target\<^sup>2\<close>.
\<close>

definition core_r2 :: "vec3 \<Rightarrow> vec3 \<Rightarrow> real \<Rightarrow> real \<Rightarrow> real" where
  "core_r2 xs xt core_source core_target =
     dot_product (vsub xt xs) (vsub xt xs) + core_source * core_source
       + core_target * core_target"

definition spec_vortex_velocity :: "vec3 \<Rightarrow> vec3 \<Rightarrow> vec3 \<Rightarrow> real \<Rightarrow> real \<Rightarrow> vec3" where
  "spec_vortex_velocity xs xt s core_source core_target =
     vscale (1 / (sqrt (core_r2 xs xt core_source core_target)) ^ 3)
       (cross_product (vsub xt xs) s)"

text \<open>One point-kernel evaluation on a singular target, on zeroed accumulators.\<close>

definition kernel_0v_0p_at :: "vec3 \<Rightarrow> real \<Rightarrow> vec3 \<Rightarrow> vec3 \<Rightarrow> vec3" where
  "kernel_0v_0p_at src sr str tgt =
     (case (src, str, tgt) of ((sx, sy, sz), (ssx, ssy, ssz), (tx, ty, tz)) \<Rightarrow>
        kernel_0v_0p sx sy sz sr ssx ssy ssz tx ty tz (0, 0, 0))"

subsection \<open>Vectors and loops\<close>

text \<open>\<open>std::vector::resize\<close>: truncates, or appends value-initialised (zero) entries.\<close>

definition resize :: "nat \<Rightarrow> 'a::zero list \<Rightarrow> 'a list" where
  "resize k xs = take k xs @ replicate (k - length xs) 0"

fun map3 :: "('a \<Rightarrow> 'b) \<Rightarrow> 'a arr3 \<Rightarrow> 'b arr3" where
  "map3 f (a, b, c) = (f a, f b, f c)"

text \<open>\<open>for (i = lo; i < hi; ++i) a[i] = f i\<close>\<close>

definition assign_range :: "nat \<Rightarrow> nat \<Rightarrow> (nat \<Rightarrow> 'a) \<Rightarrow> 'a list \<Rightarrow> 'a list" where
  "assign_range lo hi f xs = fold (\<lambda>i a. a[i := f i]) [lo..<hi] xs"

text \<open>\<open>for (i = lo; i < hi; ++i) a[i] = g i a[i]\<close>\<close>

definition update_range :: "nat \<Rightarrow> nat \<Rightarrow> (nat \<Rightarrow> 'a \<Rightarrow> 'a) \<Rightarrow> 'a list \<Rightarrow> 'a list" where
  "update_range lo hi g xs = fold (\<lambda>i a. a[i := g i (a ! i)]) [lo..<hi] xs"

text \<open>Writing one vector into slot \<open>i\<close> of three component arrays.\<close>

fun put3 :: "nat \<Rightarrow> vec3 \<Rightarrow> real list arr3 \<Rightarrow> real list arr3" where
  "put3 i (v0, v1, v2) (l0, l1, l2) = (l0[i := v0], l1[i := v1], l2[i := v2])"

text \<open>Reading slot \<open>i\<close> of three component arrays.\<close>

fun nth3 :: "real list arr3 \<Rightarrow> nat \<Rightarrow> vec3" where
  "nth3 (l0, l1, l2) i = (l0 ! i, l1 ! i, l2 ! i)"

subsection \<open>Body and ElementBase\<close>

text \<open>
  Body.h is not among the sources. The record holds what the panel code asks of a body:
  \<open>get_name()\<close>, \<open>get_rotvel_vec()\<close> and the action of \<open>get_transform_mat()\<close> on a point.
\<close>

record Body =
  body_name :: string
  body_rotvel :: vec3
  body_transform_mat :: "vec3 \<Rightarrow> vec3"

text \<open>
  ElementBase.h is not among the sources. The fields are those the panel code uses
  (\<open>x\<close>, \<open>s\<close>, \<open>u\<close>, \<open>ux\<close> on the nodes, \<open>E\<close>, \<open>M\<close>, \<open>B\<close>, \<open>n\<close>); a
  \<open>std::shared_ptr<Body>\<close> is an optional body.
\<close>

record ElementBase =
  x_eb :: "real list arr3"
  s_eb :: "real list arr3 option"
  u_eb :: "real list arr3"
  ux_eb :: "real list arr3 option"
  E_eb :: elem_t
  M_eb :: move_t
  B_eb :: "Body option"
  n_eb :: nat

text \<open>
  Modelled from the spec: the constructor \<open>ElementBase(n, e, m, bp)\<close>, which is not
  among the sources; it stores its arguments and leaves the node arrays empty.
\<close>

definition ElementBase_ctor :: "nat \<Rightarrow> elem_t \<Rightarrow> move_t \<Rightarrow> Body option \<Rightarrow> ElementBase" where
  "ElementBase_ctor k e m bp =
     \<lparr>x_eb = ([], [], []), s_eb = None, u_eb = ([], [], []), ux_eb = None,
      E_eb = e, M_eb = m, B_eb = bp, n_eb = k\<rparr>"

text \<open>
  Modelled from the spec: \<open>ElementBase::finalize_vels\<close>, which is not among the sources;
  it "adds the freestream vector and applies the kernel normalization factor 1/(4\<pi>)" to
  the node velocities.
\<close>

definition ElementBase_finalize_vels :: "vec3 \<Rightarrow> ElementBase \<Rightarrow> ElementBase" where
  "ElementBase_finalize_vels fs e =
     (let factor = 0.25 / pi;
          fin = (\<lambda>d. update_range 0 (n_eb e) (\<lambda>i v. get3 fs d + v * factor) (get3 (u_eb e) d))
      in e\<lparr>u_eb := (fin 0, fin 1, fin 2)\<rparr>)"

subsection \<open>Surfaces.h\<close>

text \<open>
  \<open>istart\<close>, \<open>utc\<close> and \<open>tc\<close> are left uninitialised by the constructor: \<open>None\<close> is
  the indeterminate value.
\<close>

record Surfaces =
  base :: ElementBase
  np :: nat
  idx :: "nat list"
  area :: "real list"
  b_surf :: "real list arr3 arr3"
  pu :: "real list arr3"
  vs :: "real list \<times> real list"
  bc :: "real list list"
  ss :: "real list option"
  ps :: "real list arr3"
  istart :: "nat option"
  vol :: real
  utc :: "vec3 option"
  tc :: "vec3 option"
  max_strength :: real

text \<open>The body of the loop of \<open>compute_bases\<close> for panel \<open>i\<close>: tangents, normal, area.\<close>

definition panel_basis :: "real list arr3 \<Rightarrow> nat list \<Rightarrow> nat \<Rightarrow> vec3 \<times> vec3 \<times> vec3 \<times> real" where
  "panel_basis xx ix i =
     (let id0 = ix ! (3 * i);
          id1 = ix ! (3 * i + 1);
          id2 = ix ! (3 * i + 2);
          x1 = vsub (nth3 xx id1) (nth3 xx id0);
          base = length3 x1;
          x1 = map3 (\<lambda>c. c * (1 / base)) x1;
          x2 = vsub (nth3 xx id2) (nth3 xx id0);
          dp = dot_product x2 x1;
          x2 = vsub x2 (vscale dp x1);
          height = length3 x2;
          x2 = map3 (\<lambda>c. c * (1 / height)) x2;
          ar = 0.5 * base * height;
          nrm = cross_product x1 x2
      in (x1, x2, nrm, ar))"

definition compute_bases :: "nat \<Rightarrow> Surfaces \<Rightarrow> error + Surfaces" where
  "compute_bases nnew s =
     (if u32 (3 * nnew) \<noteq> length (idx s) then Inl ArraySizeMismatch
      else
        let norig = u32 (length (get3 (get3 (b_surf s) 0) 0));
            bb = map3 (map3 (resize nnew)) (b_surf s);
            ar = resize nnew (area s);
            (bb, ar) = fold (\<lambda>i (bb, ar).
                 case panel_basis (x_eb (base s)) (idx s) i of (x1, x2, nrm, a) \<Rightarrow>
                   (case bb of (b0, b1, b2) \<Rightarrow>
                      ((put3 i x1 b0, put3 i x2 b1, put3 i nrm b2), ar[i := a])))
               [norig..<nnew] (bb, ar)
        in Inr (s\<lparr>b_surf := bb, area := ar\<rparr>))"

definition vortex_sheet_to_panel_strength :: "nat \<Rightarrow> Surfaces \<Rightarrow> error + Surfaces" where
  "vortex_sheet_to_panel_strength num s =
     (if length (fst (vs s)) \<noteq> num then Inl ArraySizeMismatch
      else if length (fst (vs s)) \<noteq> length (get3 (get3 (b_surf s) 0) 0)
        then Inl ArraySizeMismatch
      else
        let p = map3 (resize num) (ps s);
            x1 = get3 (b_surf s) 0;
            x2 = get3 (b_surf s) 1;
            p = fold (\<lambda>i p. put3 i
                   (map3 (\<lambda>d. (fst (vs s) ! i * get3 x1 d ! i + snd (vs s) ! i * get3 x2 d ! i)
                               * area s ! i) (0, 1, 2)) p)
                 [0..<num] p
        in Inr (s\<lparr>ps := p\<rparr>))"

definition set_geom_center :: "Surfaces \<Rightarrow> error + Surfaces" where
  "set_geom_center s =
     (case B_eb (base s) of None \<Rightarrow> Inl NoBody | Some bp \<Rightarrow>
      case ux_eb (base s) of None \<Rightarrow> Inl NoUntransformed | Some (ux0, ux1, ux2) \<Rightarrow>
        let (vsum, xsum, ysum, zsum) = fold (\<lambda>i (vsum, xsum, ysum, zsum).
               let jp0 = idx s ! (3 * i);
                   jp1 = idx s ! (3 * i + 1);
                   jp2 = idx s ! (3 * i + 2);
                   thisvol = ux0 ! jp0 * ux1 ! jp1 * ux2 ! jp2
                           - ux0 ! jp0 * ux1 ! jp2 * ux2 ! jp1
                           - ux0 ! jp1 * ux1 ! jp0 * ux2 ! jp2
                           + ux0 ! jp1 * ux1 ! jp2 * ux2 ! jp0
                           + ux0 ! jp2 * ux1 ! jp0 * ux2 ! jp1
                           - ux0 ! jp2 * ux1 ! jp1 * ux2 ! jp0;
                   thisvol = thisvol / 6
               in (vsum + thisvol,
                   xsum + 0.25 * thisvol * (ux0 ! jp0 + ux0 ! jp1 + ux0 ! jp2),
                   ysum + 0.25 * thisvol * (ux1 ! jp0 + ux1 ! jp1 + ux1 ! jp2),
                   zsum + 0.25 * thisvol * (ux2 ! jp0 + ux2 ! jp1 + ux2 ! jp2)))
             [0..<np s] (0, 0, 0, 0);
            v = vsum
        in Inr (s\<lparr>vol := v, utc := Some (xsum / v, ysum / v, zsum / v)\<rparr>))"

text \<open>Sequencing of operations that may end in a failed assertion.\<close>

definition then_do :: "error + 'a \<Rightarrow> ('a \<Rightarrow> error + 'b) \<Rightarrow> error + 'b" where
  "then_do r f = (case r of Inl e \<Rightarrow> Inl e | Inr v \<Rightarrow> f v)"

text \<open>The member initialisers of the constructor and the default-constructed members.\<close>

definition Surfaces_init :: "elem_t \<Rightarrow> move_t \<Rightarrow> Body option \<Rightarrow> Surfaces" where
  "Surfaces_init e m bp =
     \<lparr>base = ElementBase_ctor 0 e m bp, np = 0, idx = [], area = [],
      b_surf = (([], [], []), ([], [], []), ([], [], [])), pu = ([], [], []),
      vs = ([], []), bc = [], ss = None, ps = ([], [], []), istart = None,
      vol = - 1, utc = None, tc = None, max_strength = - 1\<rparr>"

text \<open>The three branches on the element type in the constructor.\<close>

definition ctor_values :: "real list \<Rightarrow> nat \<Rightarrow> Surfaces \<Rightarrow> error + Surfaces" where
  "ctor_values val nsurfs s =
     (case E_eb (base s) of
        active \<Rightarrow>
          if length val \<noteq> 2 * nsurfs then Inl ValueArrayNotMultiple
          else
            let s = s\<lparr>vs := (assign_range 0 nsurfs (\<lambda>i. val ! (2 * i + 0)) (resize nsurfs (fst (vs s))),
                             assign_range 0 nsurfs (\<lambda>i. val ! (2 * i + 1)) (resize nsurfs (snd (vs s))))\<rparr>
            in vortex_sheet_to_panel_strength nsurfs s
      | reactive \<Rightarrow>
          let nper = length val div nsurfs
          in if \<not> (nper > 0 \<and> nper < 4) then Inl BadBCCount
             else
               let bc0 = take nper (bc s) @ replicate (nper - length (bc s)) [];
                   s = s\<lparr>bc := map (\<lambda>d. assign_range 0 nsurfs (\<lambda>i. val ! (nper * i + d))
                                          (resize nsurfs (bc0 ! d))) [0..<nper]\<rparr>;
                   s = s\<lparr>vs := (map (\<lambda>v. 0) (resize nsurfs (fst (vs s))),
                                map (\<lambda>v. 0) (resize nsurfs (snd (vs s))))\<rparr>
               in vortex_sheet_to_panel_strength nsurfs s
      | inert \<Rightarrow> Inr s)"

definition Surfaces_ctor ::
  "real list \<Rightarrow> nat list \<Rightarrow> real list \<Rightarrow> elem_t \<Rightarrow> move_t \<Rightarrow> Body option \<Rightarrow> error + Surfaces" where
  "Surfaces_ctor xin idxin val e m bp =
     (let s = Surfaces_init e m bp
      in if length idxin mod 3 \<noteq> 0 then Inl IndexArrayNotMultiple
      else
        let nsurfs = length idxin div 3
        in if nsurfs = 0
           then Inr (if bp \<noteq> None
                     then s\<lparr>base := (base s)\<lparr>ux_eb := Some (x_eb (base s))\<rparr>\<rparr> else s)
        else if length val mod nsurfs \<noteq> 0 then Inl ValueArrayNotMultiple
        else if length xin mod 3 \<noteq> 0 then Inl PositionArrayNotMultiple
        else
          let nnodes = length xin div 3;
              xx = map3 (\<lambda>d. assign_range 0 nnodes (\<lambda>i. xin ! (3 * i + d))
                                (resize nnodes (get3 (x_eb (base s)) d))) (0, 1, 2);
              s = s\<lparr>base := (base s)\<lparr>x_eb := xx\<rparr>\<rparr>;
              s = (if bp \<noteq> None
                   then s\<lparr>base := (base s)\<lparr>ux_eb := Some (x_eb (base s))\<rparr>\<rparr> else s);
              idx_are_all_good =
                fold (\<lambda>i good. if idxin ! i \<ge> nnodes then False else good) [0..<3 * nsurfs] True;
              s = s\<lparr>idx := assign_range 0 (3 * nsurfs) (\<lambda>i. idxin ! i)
                                (resize (length idxin) (idx s))\<rparr>
          in if \<not> idx_are_all_good then Inl BadIndices
             else
               then_do (compute_bases (u32 nsurfs) s) (\<lambda>s.
               then_do (ctor_values val nsurfs s) (\<lambda>s.
                 let s = s\<lparr>base := (base s)\<lparr>u_eb := map3 (resize nnodes) (u_eb (base s))\<rparr>\<rparr>;
                     s = s\<lparr>pu := map3 (resize nsurfs) (pu s)\<rparr>;
                     s = s\<lparr>base := (base s)\<lparr>n_eb := nnodes\<rparr>, np := nsurfs\<rparr>
                 in if M_eb (base s) = bodybound then set_geom_center s else Inr s)))"

definition is_augmented :: "Surfaces \<Rightarrow> bool" where
  "is_augmented s =
     (let augment = True;
          augment = (case B_eb (base s) of
                       Some bp \<Rightarrow>
                         if body_name bp = ''ground''
                         then (if vol s < 0 then False else augment)
                         else augment
                     | None \<Rightarrow> False);
          augment = (if E_eb (base s) \<noteq> reactive then False else augment);
          augment = False
      in augment)"

text \<open>\<open>std::numeric_limits<double>::epsilon()\<close>\<close>

definition dbl_epsilon :: real where
  "dbl_epsilon = 1 / 2 ^ 52"

text \<open>
  The loop of \<open>add_rot_strengths\<close> computes the panel-centre velocity into locals
  and stores nothing (the stores are commented out in the source).
\<close>

definition rot_panel_vel :: "Surfaces \<Rightarrow> vec3 \<Rightarrow> real \<Rightarrow> nat \<Rightarrow> vec3 option" where
  "rot_panel_vel s rotvel factor i =
     (case (ux_eb (base s), utc s) of
        (Some ux, Some c) \<Rightarrow>
          let id0 = idx s ! (3 * i);
              id1 = idx s ! (3 * i + 1);
              id2 = idx s ! (3 * i + 2);
              d = vsub (map3 (\<lambda>c. c / 3) (vadd (vadd (nth3 ux id0) (nth3 ux id1)) (nth3 ux id2))) c
          in Some (vscale factor (cross_product rotvel d))
      | _ \<Rightarrow> None)"

definition add_rot_strengths :: "real \<Rightarrow> real \<Rightarrow> Surfaces \<Rightarrow> error + Surfaces" where
  "add_rot_strengths constfac rotfactor s =
     (case B_eb (base s) of None \<Rightarrow> Inr s | Some bp \<Rightarrow>
      if body_name bp = ''ground'' then Inr s
      else
        let rotvel = body_rotvel bp
        in if \<bar>get3 rotvel 0\<bar> + \<bar>get3 rotvel 1\<bar> + \<bar>get3 rotvel 2\<bar> > dbl_epsilon then Inr s
        else if \<not> vol s > 0 then Inl NoCenter
        else
          let s = (case ss s of
                     Some v \<Rightarrow> s\<lparr>ss := Some (resize (np s) v)\<rparr>
                   | None \<Rightarrow> s\<lparr>ss := Some (replicate (np s) 0)\<rparr>)
          in if length (get3 (ps s) 0) \<noteq> np s then Inl StrengthSizeMismatch
             else
               let factor = 0
               in Inr (fold (\<lambda>i s. case rot_panel_vel s rotvel factor i of
                                      Some (ui, vi, wi) \<Rightarrow> s | None \<Rightarrow> s) [0..<np s] s))"

text \<open>
  \<open>ElementBase::transform\<close> is not among the sources: it is the parameter
  \<open>base_transform\<close>, acting on the base-class part of the collection.
\<close>

definition transform :: "(real \<Rightarrow> ElementBase \<Rightarrow> ElementBase) \<Rightarrow> real \<Rightarrow> Surfaces \<Rightarrow> error + Surfaces" where
  "transform base_transform time s =
     (let s = s\<lparr>base := base_transform time (base s)\<rparr>
      in then_do (compute_bases (u32 (np s)) s) (\<lambda>s.
           case B_eb (base s) of
             Some bp \<Rightarrow>
               if M_eb (base s) = bodybound
               then Inr (s\<lparr>tc := map_option (body_transform_mat bp) (utc s)\<rparr>)
               else Inr (s\<lparr>tc := utc s\<rparr>)
           | None \<Rightarrow> Inr (s\<lparr>tc := utc s\<rparr>)))"

definition finalize_vels :: "vec3 \<Rightarrow> Surfaces \<Rightarrow> Surfaces" where
  "finalize_vels fs s =
     (let factor = 0.25 / pi;
          fin = (\<lambda>d. update_range 0 (np s) (\<lambda>i v. get3 fs d + v * factor) (get3 (pu s) d));
          s = s\<lparr>pu := (fin 0, fin 1, fin 2)\<rparr>
      in s\<lparr>base := ElementBase_finalize_vels fs (base s)\<rparr>)"

text \<open>
  The construction the specification states for a panel: tangent-1 the normalised
  edge from node 0 to node 1, tangent-2 the normalised part of the second edge
  orthogonal to tangent-1, the normal their vector product, the area half of base
  times height.
\<close>

definition normalize3 :: "vec3 \<Rightarrow> vec3" where
  "normalize3 v = vscale (1 / length3 v) v"

definition spec_panel_basis :: "vec3 \<Rightarrow> vec3 \<Rightarrow> vec3 \<Rightarrow> vec3 \<times> vec3 \<times> vec3 \<times> real" where
  "spec_panel_basis p0 p1 p2 =
     (let t1 = normalize3 (vsub p1 p0);
          edge2 = vsub p2 p0;
          perp = vsub edge2 (vscale (dot_product edge2 t1) t1);
          t2 = normalize3 perp
      in (t1, t2, cross_product t1 t2, 0.5 * length3 (vsub p1 p0) * length3 perp))"

subsection \<open>RHS.h\<close>

definition vels_to_rhs_panels :: "Surfaces \<Rightarrow> error + real list" where
  "vels_to_rhs_panels targ =
     (let x1 = get3 (b_surf targ) 0;
          x2 = get3 (b_surf targ) 1;
          nrm = get3 (b_surf targ) 2;
          tu = pu targ;
          tb = bc targ
      in if length (get3 x1 0) \<noteq> length (get3 x2 0) then Inl NoData
      else if length (get3 x1 0) \<noteq> length (get3 nrm 0) then Inl NoData
      else if length (get3 x1 0) \<noteq> length (get3 tu 0) then Inl NoData
      else if \<not> length tb > 0 then Inl NoData
      else if length (get3 x1 0) \<noteq> length (tb ! 0) then Inl NoData
      else
        let ntarg = np targ;
            nunkn = length tb;
            rhs = resize (nunkn * ntarg) [];
            rhs =
              (if nunkn = 1 then
                 fold (\<lambda>i rhs. rhs[i := - dot_product (nth3 tu i) (nth3 nrm i)]) [0..<ntarg] rhs
               else if nunkn = 2 then
                 fold (\<lambda>i rhs. rhs[2 * i + 0 := - dot_product (nth3 tu i) (nth3 x1 i),
                                    2 * i + 1 := - dot_product (nth3 tu i) (nth3 x2 i)])
                   [0..<ntarg] rhs
               else if nunkn = 3 then
                 fold (\<lambda>i rhs. rhs[3 * i + 0 := - dot_product (nth3 tu i) (nth3 x1 i),
                                    3 * i + 1 := - dot_product (nth3 tu i) (nth3 x2 i),
                                    3 * i + 2 := - dot_product (nth3 tu i) (nth3 nrm i)])
                   [0..<ntarg] rhs
               else rhs);
            rhs = fold (\<lambda>i rhs.
                     fold (\<lambda>j rhs. rhs[nunkn * i + j := rhs ! (nunkn * i + j) - tb ! j ! i])
                       [0..<nunkn] rhs)
                   [0..<ntarg] rhs
        in Inr rhs)"

text \<open>The size conditions that the constructor establishes for a reactive collection.\<close>

definition sized3 :: "nat \<Rightarrow> real list arr3 \<Rightarrow> bool" where
  "sized3 k a = (length (get3 a 0) = k \<and> length (get3 a 1) = k \<and> length (get3 a 2) = k)"

definition panels_sized :: "Surfaces \<Rightarrow> bool" where
  "panels_sized s =
     (sized3 (np s) (get3 (b_surf s) 0) \<and> sized3 (np s) (get3 (b_surf s) 1)
      \<and> sized3 (np s) (get3 (b_surf s) 2) \<and> sized3 (np s) (pu s)
      \<and> list_all (\<lambda>c. length c = np s) (bc s))"

text \<open>The same for the arrays that the loop of \<open>compute_bases\<close> carries.\<close>

definition bases_sized :: "nat \<Rightarrow> real list arr3 arr3 \<times> real list \<Rightarrow> bool" where
  "bases_sized k p = (case p of ((b0, b1, b2), ar) \<Rightarrow>
      sized3 k b0 \<and> sized3 k b1 \<and> sized3 k b2 \<and> length ar = k)"

subsection \<open>Simulation.h, Simulation.cpp\<close>

text \<open>
  Diffusion.h is not among the sources; the record holds what \<open>get_ips\<close> and
  \<open>get_vdelta\<close> read: \<open>get_nom_sep_scaled()\<close> and \<open>get_particle_overlap()\<close>.
\<close>

record Diffusion =
  nom_sep_scaled :: real
  particle_overlap :: real

text \<open>
  \<open>std::async\<close> and \<open>std::future\<close>: every launch starts one more run of \<open>step()\<close>;
  \<open>launched\<close> counts them, and a valid future holds the number of the run it waits
  for (\<open>None\<close> is a future without shared state). The collections are of a type
  \<open>'c\<close>, since Collection.h and Points.h are not among the sources.
\<close>

record 'c Simulation =
  re :: real
  dt :: real
  fs :: vec3
  vort :: "'c list"
  bdry :: "'c list"
  fldpt :: "'c list"
  diff :: Diffusion
  time :: real
  sim_is_initialized :: bool
  step_has_started :: bool
  step_is_finished :: bool
  stepfuture :: "nat option"
  launched :: nat

definition Simulation_ctor :: "Diffusion \<Rightarrow> 'c Simulation" where
  "Simulation_ctor d =
     \<lparr>re = 100, dt = 0.01, fs = (0, 0, 0), vort = [], bdry = [], fldpt = [], diff = d,
      time = 0, sim_is_initialized = False, step_has_started = False,
      step_is_finished = False, stepfuture = None, launched = 0\<rparr>"

definition get_hnu :: "'c Simulation \<Rightarrow> real" where
  "get_hnu sim = sqrt (dt sim / re sim)"

definition get_ips :: "'c Simulation \<Rightarrow> real" where
  "get_ips sim = nom_sep_scaled (diff sim) * get_hnu sim"

definition get_vdelta :: "'c Simulation \<Rightarrow> real" where
  "get_vdelta sim = particle_overlap (diff sim) * get_ips sim"

text \<open>\<open>is_future_ready\<close>: the future is valid and its run has completed.\<close>

definition is_future_ready :: "(nat \<Rightarrow> bool) \<Rightarrow> nat option \<Rightarrow> bool" where
  "is_future_ready completed f = (case f of None \<Rightarrow> False | Some k \<Rightarrow> completed k)"

definition test_for_new_results :: "(nat \<Rightarrow> bool) \<Rightarrow> 'c Simulation \<Rightarrow> bool \<times> 'c Simulation" where
  "test_for_new_results completed sim =
     (if \<not> step_has_started sim then (True, sim)
      else if is_future_ready completed (stepfuture sim)
        then (True, sim\<lparr>stepfuture := None, step_is_finished := True, step_has_started := False\<rparr>)
      else (False, sim))"

definition async_step :: "'c Simulation \<Rightarrow> 'c Simulation" where
  "async_step sim =
     (let sim = sim\<lparr>step_has_started := True\<rparr>
      in sim\<lparr>stepfuture := Some (launched sim), launched := launched sim + 1\<rparr>)"

text \<open>\<open>for (size_t i=6; i<_invec.size(); i+=7) _invec[i] = thisvd\<close>\<close>

function set_radii :: "real \<Rightarrow> nat \<Rightarrow> real list \<Rightarrow> real list" where
  "set_radii thisvd i invec =
     (if i < length invec then set_radii thisvd (i + 7) (invec[i := thisvd]) else invec)"
  by pat_completeness auto
termination
  by (relation "measure (\<lambda>(thisvd, i, invec). length invec - i)") auto

declare set_radii.simps [simp del]

text \<open>
  The constructor of \<open>Points\<close> and its \<open>add_new\<close> are not among the sources: they are
  the parameters \<open>mk\<close> and \<open>add\<close>.
\<close>

definition add_particles ::
  "(real list \<Rightarrow> elem_t \<Rightarrow> move_t \<Rightarrow> 'c) \<Rightarrow> (real list \<Rightarrow> 'c \<Rightarrow> 'c) \<Rightarrow> real list
     \<Rightarrow> 'c Simulation \<Rightarrow> error + 'c Simulation" where
  "add_particles mk add invec sim =
     (if length invec = 0 then Inr sim
      else if length invec mod 7 \<noteq> 0 then Inl PartialParticle
      else
        let thisvd = get_vdelta sim;
            invec = set_radii thisvd 6 invec
        in if length (vort sim) = 0
           then Inr (sim\<lparr>vort := vort sim @ [mk invec active lagrangian]\<rparr>)
           else Inr (sim\<lparr>vort := butlast (vort sim) @ [add invec (last (vort sim))]\<rparr>))"

subsection \<open>A one-panel collection on a turning body\<close>

text \<open>
  A body whose transformation is a quarter turn about the z axis, a base-class
  transformation that places the nodes by turning the untransformed ones in that way,
  and the collection that the constructor builds from the triangle
  \<open>(0,0,1), (1,0,1), (0,1,1)\<close> attached to that body.
\<close>

definition wing :: Body where
  "wing = \<lparr>body_name = ''wing'', body_rotvel = (0, 0, 1),
           body_transform_mat = (\<lambda>(x, y, z). (- y, x, z))\<rparr>"

definition quarter_turn :: "real \<Rightarrow> ElementBase \<Rightarrow> ElementBase" where
  "quarter_turn t e =
     (case ux_eb e of
        Some (ux0, ux1, ux2) \<Rightarrow> e\<lparr>x_eb := (map uminus ux1, ux0, ux2)\<rparr>
      | None \<Rightarrow> e)"

definition tri :: Surfaces where
  "tri = \<lparr>base = \<lparr>x_eb = ([0, 1, 0], [0, 0, 1], [1, 1, 1]), s_eb = None,
                   u_eb = ([0, 0, 0], [0, 0, 0], [0, 0, 0]),
                   ux_eb = Some ([0, 1, 0], [0, 0, 1], [1, 1, 1]),
                   E_eb = reactive, M_eb = bodybound, B_eb = Some wing, n_eb = 3\<rparr>,
          np = 1, idx = [0, 1, 2], area = [1 / 2],
          b_surf = (([1], [0], [0]), ([0], [1], [0]), ([0], [0], [1])),
          pu = ([0], [0], [0]), vs = ([0], [0]), bc = [[0]], ss = None,
          ps = ([0], [0], [0]), istart = None, vol = 1 / 6,
          utc = Some (1 / 4, 1 / 4, 3 / 4), tc = None, max_strength = - 1\<rparr>"

section \<open>Properties\<close>

subsection \<open>Loops over index ranges\<close>

lemma length_update_range [simp]: "length (update_range lo hi g xs) = length xs"
  unfolding update_range_def by (induction hi) auto

lemma length_assign_range [simp]: "length (assign_range lo hi f xs) = length xs"
  unfolding assign_range_def by (induction hi) auto

lemma nth_update_range:
  "i < length xs \<Longrightarrow>
   update_range lo hi g xs ! i = (if lo \<le> i \<and> i < hi then g i (xs ! i) else xs ! i)"
proof (induction hi)
  case 0
  then show ?case by (simp add: update_range_def)
next
  case (Suc hi)
  have len: "length (fold (\<lambda>i a. a[i := g i (a ! i)]) [lo..<hi] xs) = length xs"
    using length_update_range [of lo hi g xs] by (simp add: update_range_def)
  show ?case
  proof (cases "lo \<le> hi")
    case True
    show ?thesis
    proof (cases "i = hi")
      case True
      then show ?thesis
        using Suc \<open>lo \<le> hi\<close> len by (simp add: update_range_def)
    next
      case False
      then show ?thesis
        using Suc \<open>lo \<le> hi\<close> len by (auto simp: update_range_def)
    qed
  next
    case False
    then show ?thesis by (auto simp: update_range_def)
  qed
qed

lemma nth_assign_range:
  "i < length xs \<Longrightarrow>
   assign_range lo hi f xs ! i = (if lo \<le> i \<and> i < hi then f i else xs ! i)"
proof (induction hi)
  case 0
  then show ?case by (simp add: assign_range_def)
next
  case (Suc hi)
  have len: "length (fold (\<lambda>i a. a[i := f i]) [lo..<hi] xs) = length xs"
    using length_assign_range [of lo hi f xs] by (simp add: assign_range_def)
  show ?case
  proof (cases "lo \<le> hi")
    case True
    show ?thesis
    proof (cases "i = hi")
      case True
      then show ?thesis
        using Suc \<open>lo \<le> hi\<close> len by (simp add: assign_range_def)
    next
      case False
      then show ?thesis
        using Suc \<open>lo \<le> hi\<close> len by (auto simp: assign_range_def)
    qed
  next
    case False
    then show ?thesis by (auto simp: assign_range_def)
  qed
qed

subsection \<open>Point kernels\<close>

lemma cube_sqrt: "0 \<le> r \<Longrightarrow> sqrt r ^ 3 = r * sqrt r"
  by (simp add: power3_eq_cube)

lemma kernel_0v_0b_value:
  assumes "0 < core_r2 (sx, sy, sz) (tx, ty, tz) sr tr"
  shows "kernel_0v_0b sx sy sz sr ssx ssy ssz tx ty tz tr acc =
     vadd acc (vscale (1 / sqrt (core_r2 (sx, sy, sz) (tx, ty, tz) sr tr) ^ 3)
        (cross_product (ssx, ssy, ssz) (vsub (tx, ty, tz) (sx, sy, sz))))"
proof -
  let ?r2 = "core_r2 (sx, sy, sz) (tx, ty, tz) sr tr"
  have c: "sqrt ?r2 ^ 3 = ?r2 * sqrt ?r2"
    using assms by (simp add: cube_sqrt)
  have r: "?r2 = (tx - sx) * (tx - sx) + (ty - sy) * (ty - sy) + (tz - sz) * (tz - sz)
                 + sr * sr + tr * tr"
    by (simp add: core_r2_def)
  obtain tu tv tw where a: "acc = (tu, tv, tw)" by (cases acc)
  show ?thesis
    unfolding c unfolding r a kernel_0v_0b_def Let_def
    by (simp add: mult.commute)
qed

lemma kernel_0v_0p_value:
  assumes "0 < core_r2 (sx, sy, sz) (tx, ty, tz) sr 0"
  shows "kernel_0v_0p sx sy sz sr ssx ssy ssz tx ty tz acc =
     vadd acc (vscale (1 / sqrt (core_r2 (sx, sy, sz) (tx, ty, tz) sr 0) ^ 3)
        (cross_product (ssx, ssy, ssz) (vsub (tx, ty, tz) (sx, sy, sz))))"
proof -
  let ?r2 = "core_r2 (sx, sy, sz) (tx, ty, tz) sr 0"
  have c: "sqrt ?r2 ^ 3 = ?r2 * sqrt ?r2"
    using assms by (simp add: cube_sqrt)
  have r: "?r2 = (tx - sx) * (tx - sx) + (ty - sy) * (ty - sy) + (tz - sz) * (tz - sz)
                 + sr * sr"
    by (simp add: core_r2_def)
  obtain tu tv tw where a: "acc = (tu, tv, tw)" by (cases acc)
  show ?thesis
    unfolding c unfolding r a kernel_0v_0p_def Let_def
    by (simp add: mult.commute)
qed

text \<open>
  C1, as stated, fails: with the source at the origin (core 2), strength \<open>(0,1,0)\<close> and
  the target at \<open>(2,0,0)\<close> (core 1), so that \<open>r\<^sup>2 = 9\<close>, the kernel adds
  \<open>(0, 0, -2/27)\<close>, while \<open>(x_t - x_s) \<times> s / r\<^sup>3\<close> is \<open>(0, 0, 2/27)\<close>.
\<close>

theorem kernel_0v_0b_not_d_cross_s:
  "kernel_0v_0b 0 0 0 2 0 1 0 2 0 0 1 (0, 0, 0)
     \<noteq> vadd (0, 0, 0) (spec_vortex_velocity (0, 0, 0) (2, 0, 0) (0, 1, 0) 2 1)"
  by (simp add: kernel_0v_0b_def spec_vortex_velocity_def core_r2_def)

text \<open>
  C1 (amended): whenever \<open>r\<^sup>2 > 0\<close>, one call of the thick-cored point-to-point
  vortex kernel adds to the target velocity exactly \<open>s \<times> (x_t - x_s) / r\<^sup>3\<close>, the
  opposite of \<open>(x_t - x_s) \<times> s / r\<^sup>3\<close>, with
  \<open>r\<^sup>2 = |x_t - x_s|\<^sup>2 + core_source\<^sup>2 + core_target\<^sup>2\<close>; the variant for a
  singular target point does the same with \<open>r\<^sup>2 = |x_t - x_s|\<^sup>2 + core_source\<^sup>2\<close>.
\<close>

theorem kernel_0v_adds_s_cross_d:
  "(0 < core_r2 (sx, sy, sz) (tx, ty, tz) sr tr \<longrightarrow>
      kernel_0v_0b sx sy sz sr ssx ssy ssz tx ty tz tr acc =
        vadd acc (vscale (1 / sqrt (core_r2 (sx, sy, sz) (tx, ty, tz) sr tr) ^ 3)
          (cross_product (ssx, ssy, ssz) (vsub (tx, ty, tz) (sx, sy, sz)))))
   \<and> (0 < core_r2 (sx, sy, sz) (tx, ty, tz) sr 0 \<longrightarrow>
      kernel_0v_0p sx sy sz sr ssx ssy ssz tx ty tz acc =
        vadd acc (vscale (1 / sqrt (core_r2 (sx, sy, sz) (tx, ty, tz) sr 0) ^ 3)
          (cross_product (ssx, ssy, ssz) (vsub (tx, ty, tz) (sx, sy, sz)))))"
  by (simp add: kernel_0v_0b_value kernel_0v_0p_value)

theorem kernel_0v_adds_s_cross_d_witness:
  "0 < core_r2 (0, 0, 0) (2, 0, 0) 2 1 \<and> 0 < core_r2 (0, 0, 0) (2, 0, 0) 2 0
   \<and> kernel_0v_0b 0 0 0 2 0 1 0 2 0 0 1 (1, 1, 1) = (1, 1, 25 / 27)
   \<and> kernel_0v_0p 0 0 0 2 0 1 0 2 0 0 (1, 1, 1)
       = vadd (1, 1, 1) (vscale (1 / sqrt 8 ^ 3) (0, 0, - 2))"
  using kernel_0v_adds_s_cross_d [of 0 0 0 2 0 0 2 1 0 1 0 "(1, 1, 1)"]
  by (simp add: core_r2_def)

subsection \<open>Panel quadrature\<close>

lemma kernel_0v_0p_acc:
  "kernel_0v_0p sx sy sz sr ssx ssy ssz tx ty tz acc =
     vadd acc (kernel_0v_0p_at (sx, sy, sz) sr (ssx, ssy, ssz) (tx, ty, tz))"
  by (cases acc) (simp add: kernel_0v_0p_def kernel_0v_0p_at_def Let_def)

text \<open>
  C5: the panel-to-point vortex influence of a triangle \<open>v0 v1 v2\<close> with strength \<open>s\<close>
  is the sum of four point-kernel evaluations with zero source core and strength
  \<open>s/4\<close>, at the centroid \<open>(v0+v1+v2)/3\<close> and at \<open>(4 v_i + v_j + v_k)/6\<close> for each
  vertex \<open>i\<close>.
\<close>

theorem kernel_2_0p_quadrature:
  "kernel_2_0p x0 y0 z0 x1 y1 z1 x2 y2 z2 ssx ssy ssz tx ty tz acc =
     (let v0 = (x0, y0, z0); v1 = (x1, y1, z1); v2 = (x2, y2, z2);
          quarter = vscale (1 / 4) (ssx, ssy, ssz);
          tgt = (tx, ty, tz)
      in vadd (vadd (vadd (vadd acc
            (kernel_0v_0p_at (vscale (1 / 3) (vadd (vadd v0 v1) v2)) 0 quarter tgt))
            (kernel_0v_0p_at (vscale (1 / 6) (vadd (vadd (vscale 4 v0) v1) v2)) 0 quarter tgt))
            (kernel_0v_0p_at (vscale (1 / 6) (vadd (vadd v0 (vscale 4 v1)) v2)) 0 quarter tgt))
            (kernel_0v_0p_at (vscale (1 / 6) (vadd (vadd v0 v1) (vscale 4 v2))) 0 quarter tgt))"
  by (simp add: kernel_2_0p_def Let_def kernel_0v_0p_acc)

subsection \<open>Panel collections\<close>

text \<open>
  C6: \<open>finalize_vels\<close> is linear in the freestream: for every panel \<open>i\<close> and
  component \<open>d\<close>, finalizing with \<open>F1 + F2\<close> gives the velocity of finalizing with
  \<open>F1\<close> plus \<open>F2\<close>, since the finalized velocity is the freestream plus the
  accumulated velocity scaled once by \<open>1/(4\<pi>)\<close>.
\<close>

theorem finalize_vels_linear:
  assumes "i < np s" and "i < length (get3 (pu s) d)"
  shows "get3 (pu (finalize_vels (vadd F1 F2) s)) d ! i
           = get3 (pu (finalize_vels F1 s)) d ! i + get3 F2 d
         \<and> get3 (pu (finalize_vels F1 s)) d ! i
           = get3 F1 d + get3 (pu s) d ! i * (1 / (4 * pi))"
proof -
  obtain a0 a1 a2 where F1: "F1 = (a0, a1, a2)" by (cases F1)
  obtain c0 c1 c2 where F2: "F2 = (c0, c1, c2)" by (cases F2)
  obtain p0 p1 p2 where P: "pu s = (p0, p1, p2)" by (cases "pu s")
  show ?thesis
    using assms by (auto simp: finalize_vels_def Let_def F1 F2 P nth_update_range)
qed

theorem finalize_vels_linear_witness:
  "(0::nat) < np ((Surfaces_init active fixed None)\<lparr>np := 1, pu := ([5], [6], [7])\<rparr>)
   \<and> get3 (pu (finalize_vels (vadd (1, 2, 3) (10, 20, 30))
        ((Surfaces_init active fixed None)\<lparr>np := 1, pu := ([5], [6], [7])\<rparr>))) 1 ! 0
       = get3 (pu (finalize_vels (1, 2, 3)
           ((Surfaces_init active fixed None)\<lparr>np := 1, pu := ([5], [6], [7])\<rparr>))) 1 ! 0 + 20
   \<and> get3 (pu (finalize_vels (1, 2, 3)
        ((Surfaces_init active fixed None)\<lparr>np := 1, pu := ([5], [6], [7])\<rparr>))) 1 ! 0
       = 2 + 6 * (1 / (4 * pi))"
  using finalize_vels_linear
    [of 0 "(Surfaces_init active fixed None)\<lparr>np := 1, pu := ([5], [6], [7])\<rparr>" 1
        "(1, 2, 3)" "(10, 20, 30)"]
  by simp

text \<open>C8: for every state of a panel collection, \<open>is_augmented\<close> returns false.\<close>

theorem is_augmented_false: "is_augmented s = False"
  by (simp add: is_augmented_def)

subsection \<open>Construction of a panel collection\<close>

lemma fold_index_flag:
  "fold (\<lambda>i good. if idxin ! i \<ge> (nnodes::nat) then False else good) [0..<k] g
     = (g \<and> (\<forall>i<k. idxin ! i < nnodes))"
  by (induction k) (auto simp: less_Suc_eq)

text \<open>
  C3: for an input with at least one panel, construction fails with a shape error,
  and so returns no collection, whenever the index array length is not a multiple of
  3, the value array length is not a multiple of the panel count, the position array
  length is not a multiple of 3, or some panel index is at least the number of
  supplied nodes.
\<close>

theorem Surfaces_ctor_rejects_malformed:
  assumes "1 \<le> length idxin div 3"
    and "length idxin mod 3 \<noteq> 0 \<or> length val mod (length idxin div 3) \<noteq> 0
         \<or> length xin mod 3 \<noteq> 0 \<or> (\<exists>i<length idxin. length xin div 3 \<le> idxin ! i)"
  shows "\<exists>err \<in> {IndexArrayNotMultiple, ValueArrayNotMultiple, PositionArrayNotMultiple, BadIndices}.
           Surfaces_ctor xin idxin val e m bp = Inl err"
proof (cases "length idxin mod 3 \<noteq> 0")
  case True
  then show ?thesis by (simp add: Surfaces_ctor_def Let_def)
next
  case i3: False
  then have full: "3 * (length idxin div 3) = length idxin" by presburger
  show ?thesis
  proof (cases "length val mod (length idxin div 3) \<noteq> 0")
    case True
    then show ?thesis using i3 assms(1) by (simp add: Surfaces_ctor_def Let_def)
  next
    case v: False
    show ?thesis
    proof (cases "length xin mod 3 \<noteq> 0")
      case True
      then show ?thesis using i3 v assms(1) by (simp add: Surfaces_ctor_def Let_def)
    next
      case x3: False
      then have "\<exists>i<length idxin. length xin div 3 \<le> idxin ! i"
        using assms(2) i3 v by blast
      then have "\<not> (\<forall>i<3 * (length idxin div 3). idxin ! i < length xin div 3)"
        using full by (auto simp: not_less)
      then show ?thesis
        using i3 v x3 assms(1) by (simp add: Surfaces_ctor_def Let_def fold_index_flag)
    qed
  qed
qed

theorem Surfaces_ctor_rejects_malformed_witness:
  "1 \<le> length [0, 0, 2::nat] div 3
   \<and> (\<exists>i<length [0, 0, 2::nat]. length [0, 0, 0, 1, 0, 0::real] div 3 \<le> [0, 0, 2::nat] ! i)
   \<and> Surfaces_ctor [0, 0, 0, 1, 0, 0] [0, 0, 2] [] reactive fixed None = Inl BadIndices"
proof -
  have h1: "1 \<le> length [0, 0, 2::nat] div 3" by simp
  have h2: "\<exists>i<length [0, 0, 2::nat]. length [0, 0, 0, 1, 0, 0::real] div 3 \<le> [0, 0, 2::nat] ! i"
    by (rule exI [of _ 2]) simp
  have nb: "\<not> (\<forall>i<3. [0, 0, 2::nat] ! i < 2)"
    by (simp, rule exI [of _ 2], simp)
  from Surfaces_ctor_rejects_malformed [of "[0, 0, 2]" "[]" "[0, 0, 0, 1, 0, 0]" reactive fixed None, OF h1]
    h2
  obtain err where "err \<in> {IndexArrayNotMultiple, ValueArrayNotMultiple, PositionArrayNotMultiple, BadIndices}"
    and r: "Surfaces_ctor [0, 0, 0, 1, 0, 0] [0, 0, 2] [] reactive fixed None = Inl err"
    by blast
  have "Surfaces_ctor [0, 0, 0, 1, 0, 0] [0, 0, 2] [] reactive fixed None = Inl BadIndices"
    by (simp add: Surfaces_ctor_def Let_def fold_index_flag nb)
  then show ?thesis using h1 h2 by blast
qed

subsection \<open>What the constructor establishes\<close>

text \<open>
  The loop body of \<open>compute_bases\<close> is the two-edge construction, and a collection
  returned by the constructor has all its per-panel arrays of the panel count.
\<close>

lemma panel_basis_is_spec:
  "panel_basis xx ix i =
     spec_panel_basis (nth3 xx (ix ! (3 * i))) (nth3 xx (ix ! (3 * i + 1)))
       (nth3 xx (ix ! (3 * i + 2)))"
proof -
  have m: "map3 (\<lambda>c. c / k) w = vscale (1 / k) w" for k :: real and w
    by (cases w) simp
  show ?thesis
    by (simp add: panel_basis_def spec_panel_basis_def normalize3_def Let_def m)
qed

lemma length_resize [simp]: "length (resize k xs) = k"
  by (simp add: resize_def)

lemma sized3_map3_resize [simp]: "sized3 k (map3 (resize k) a)"
  by (cases a) (simp add: sized3_def)

lemma sized3_put3 [simp]: "sized3 k (put3 i w a) = sized3 k a"
  by (cases a; cases w) (simp add: sized3_def)

lemma bases_loop_sized:
  "bases_sized k p \<Longrightarrow>
   bases_sized k (fold (\<lambda>i (bb, ar).
        case panel_basis xx ix i of (x1, x2, nrm, a) \<Rightarrow>
          (case bb of (b0, b1, b2) \<Rightarrow>
             ((put3 i x1 b0, put3 i x2 b1, put3 i nrm b2), ar[i := a]))) ks p)"
proof (induction ks arbitrary: p)
  case Nil
  then show ?case by simp
next
  case (Cons j ks)
  obtain b0 b1 b2 ar where p: "p = ((b0, b1, b2), ar)" by (cases p) auto
  obtain x1 x2 nrm a where q: "panel_basis xx ix j = (x1, x2, nrm, a)"
    by (cases "panel_basis xx ix j") auto
  show ?case
    using Cons.prems by (simp add: p q) (rule Cons.IH, simp add: bases_sized_def)
qed

lemma compute_bases_sized:
  assumes "compute_bases k s = Inr s'"
  shows "sized3 k (get3 (b_surf s') 0) \<and> sized3 k (get3 (b_surf s') 1)
         \<and> sized3 k (get3 (b_surf s') 2) \<and> length (area s') = k
         \<and> s' = s\<lparr>b_surf := b_surf s', area := area s'\<rparr>"
proof -
  obtain b0 b1 b2 where b: "b_surf s = (b0, b1, b2)" by (cases "b_surf s")
  let ?p = "(map3 (map3 (resize k)) (b_surf s), resize k (area s))"
  let ?f = "fold (\<lambda>i (bb, ar).
        case panel_basis (x_eb (base s)) (idx s) i of (x1, x2, nrm, a) \<Rightarrow>
          (case bb of (b0, b1, b2) \<Rightarrow>
             ((put3 i x1 b0, put3 i x2 b1, put3 i nrm b2), ar[i := a])))
        [u32 (length (get3 (get3 (b_surf s) 0) 0))..<k] ?p"
  have "bases_sized k ?p" by (simp add: bases_sized_def b)
  then have z: "bases_sized k ?f" by (rule bases_loop_sized)
  obtain c0 c1 c2 ar where f: "?f = ((c0, c1, c2), ar)" by (cases ?f) auto
  have "s' = s\<lparr>b_surf := (c0, c1, c2), area := ar\<rparr>"
    using assms f by (simp add: compute_bases_def Let_def split: if_splits)
  then show ?thesis using z f by (simp add: bases_sized_def)
qed


lemma vortex_sheet_to_panel_strength_frame:
  "vortex_sheet_to_panel_strength num s = Inr s' \<Longrightarrow>
   b_surf s' = b_surf s \<and> area s' = area s \<and> pu s' = pu s \<and> base s' = base s
   \<and> np s' = np s \<and> bc s' = bc s \<and> vs s' = vs s"
  by (auto simp: vortex_sheet_to_panel_strength_def Let_def split: if_splits)

lemma set_geom_center_frame:
  "set_geom_center s = Inr s' \<Longrightarrow>
   b_surf s' = b_surf s \<and> area s' = area s \<and> pu s' = pu s \<and> base s' = base s
   \<and> np s' = np s \<and> bc s' = bc s"
  by (auto simp: set_geom_center_def Let_def split: option.splits prod.splits)

lemma ctor_values_frame:
  assumes "ctor_values val k s = Inr s'" and "bc s = []"
  shows "b_surf s' = b_surf s \<and> area s' = area s \<and> pu s' = pu s \<and> base s' = base s
         \<and> np s' = np s \<and> list_all (\<lambda>c. length c = k) (bc s')"
proof (cases "E_eb (base s)")
  case active
  then show ?thesis
    using assms
    by (auto simp: ctor_values_def Let_def split: if_splits
             dest!: vortex_sheet_to_panel_strength_frame)
next
  case reactive
  then show ?thesis
    using assms
    by (auto simp: ctor_values_def Let_def list_all_iff split: if_splits
             dest!: vortex_sheet_to_panel_strength_frame)
next
  case inert
  then show ?thesis using assms by (simp add: ctor_values_def)
qed

lemma u32_id: "k < 2 ^ 32 \<Longrightarrow> u32 k = k"
  by (simp add: u32_def)

lemma Surfaces_ctor_sized:
  assumes "Surfaces_ctor xin idxin val e m bp = Inr s" and "length idxin div 3 < 2 ^ 32"
  shows "panels_sized s \<and> np s = length idxin div 3"
proof (cases "length idxin div 3 = 0")
  case True
  then show ?thesis
    using assms(1)
    by (auto simp: Surfaces_ctor_def Let_def Surfaces_init_def panels_sized_def sized3_def
             split: if_splits)
next
  case False
  let ?k = "length idxin div 3"
  from assms(1) False obtain sA sB sC sD where
    cb: "compute_bases (u32 ?k) sA = Inr sB" and "bc sA = []"
    and cv: "ctor_values val ?k sB = Inr sC"
    and d: "sD = sC\<lparr>base := (base sC)\<lparr>u_eb := map3 (resize (length xin div 3)) (u_eb (base sC))\<rparr>,
                   pu := map3 (resize ?k) (pu sC),
                   base := (base sC)\<lparr>u_eb := map3 (resize (length xin div 3)) (u_eb (base sC)),
                                       n_eb := length xin div 3\<rparr>,
                   np := ?k\<rparr>"
    and fin: "set_geom_center sD = Inr s \<or> s = sD"
    by (auto simp: Surfaces_ctor_def Let_def then_do_def Surfaces_init_def
             split: if_splits sum.splits)
  have bB: "sized3 ?k (get3 (b_surf sB) 0) \<and> sized3 ?k (get3 (b_surf sB) 1)
         \<and> sized3 ?k (get3 (b_surf sB) 2)" and "bc sB = []"
    using compute_bases_sized [OF cb] \<open>bc sA = []\<close> u32_id [OF assms(2)]
    by (auto dest: arg_cong [where f = bc])
  then have "panels_sized sD \<and> np sD = ?k"
    using ctor_values_frame [OF cv] d by (simp add: panels_sized_def)
  then show ?thesis
    using fin set_geom_center_frame [of sD s] by (auto simp: panels_sized_def)
qed

subsection \<open>Rotation strengths\<close>

lemma replicate_2: "replicate 2 v = [v, v]"
  by (simp add: numeral_2_eq_2)

lemma fold_no_store:
  "fold (\<lambda>i s. case f s i of Some (ui, vi, wi) \<Rightarrow> s | None \<Rightarrow> s) ks s = s"
  by (induction ks) (auto split: option.split prod.split)

text \<open>
  C10: whenever \<open>add_rot_strengths\<close> returns, the vortex-sheet strengths, the
  absolute panel strengths and the boundary-condition table are unchanged, and no
  field other than the optional source-strength array differs; that array changes
  only when a body other than the ground is attached and the sum of the absolute
  rotation rates does not exceed machine epsilon, and then it is the old array resized
  to the panel count, or a new zero-filled array of that size.
\<close>

theorem add_rot_strengths_frame:
  assumes "add_rot_strengths constfac rotfactor s = Inr s'"
  shows "vs s' = vs s \<and> ps s' = ps s \<and> bc s' = bc s \<and> s' = s\<lparr>ss := ss s'\<rparr>
         \<and> (ss s' \<noteq> ss s \<longrightarrow>
              (\<exists>bp. B_eb (base s) = Some bp \<and> body_name bp \<noteq> ''ground''
                    \<and> \<bar>get3 (body_rotvel bp) 0\<bar> + \<bar>get3 (body_rotvel bp) 1\<bar>
                        + \<bar>get3 (body_rotvel bp) 2\<bar> \<le> dbl_epsilon)
              \<and> ss s' = Some (case ss s of None \<Rightarrow> replicate (np s) 0
                                         | Some v \<Rightarrow> resize (np s) v))"
  using assms
  by (auto simp: add_rot_strengths_def Let_def fold_no_store
           split: option.splits if_splits)

theorem add_rot_strengths_frame_witness:
  "add_rot_strengths 1 1
     ((Surfaces_init reactive bodybound
         (Some \<lparr>body_name = ''wing'', body_rotvel = (0, 0, 0), body_transform_mat = (\<lambda>v. v)\<rparr>))
        \<lparr>np := 2, ps := ([0, 0], [0, 0], [0, 0]), vol := 1\<rparr>)
     = Inr ((Surfaces_init reactive bodybound
         (Some \<lparr>body_name = ''wing'', body_rotvel = (0, 0, 0), body_transform_mat = (\<lambda>v. v)\<rparr>))
        \<lparr>np := 2, ps := ([0, 0], [0, 0], [0, 0]), vol := 1, ss := Some [0, 0]\<rparr>)
   \<and> vs ((Surfaces_init reactive bodybound
         (Some \<lparr>body_name = ''wing'', body_rotvel = (0, 0, 0), body_transform_mat = (\<lambda>v. v)\<rparr>))
        \<lparr>np := 2, ps := ([0, 0], [0, 0], [0, 0]), vol := 1, ss := Some [0, 0]\<rparr>) = ([], [])"
proof -
  let ?s = "(Surfaces_init reactive bodybound
         (Some \<lparr>body_name = ''wing'', body_rotvel = (0, 0, 0), body_transform_mat = (\<lambda>v. v)\<rparr>))
        \<lparr>np := 2, ps := ([0, 0], [0, 0], [0, 0]), vol := 1\<rparr>"
  have h: "add_rot_strengths 1 1 ?s = Inr (?s\<lparr>ss := Some [0, 0]\<rparr>)"
    by (simp add: add_rot_strengths_def Surfaces_init_def ElementBase_ctor_def Let_def
          fold_no_store dbl_epsilon_def replicate_2)
  from add_rot_strengths_frame [OF h] have "vs (?s\<lparr>ss := Some [0, 0]\<rparr>) = vs ?s" by blast
  then have "vs (?s\<lparr>ss := Some [0, 0]\<rparr>) = ([], [])" by (simp add: Surfaces_init_def)
  with h show ?thesis by simp
qed

subsection \<open>The stepper\<close>

text \<open>
  C2: \<open>async_step\<close> has no guard. Called while a step is in flight (the poll is not
  ready), it launches one more run of \<open>step()\<close> and replaces the future, which then
  waits for the second run: with the first run complete and the second not, the poll
  still answers "not ready".
\<close>

theorem async_step_twice_launches_again:
  "launched (async_step (async_step sim)) = launched sim + 2
   \<and> stepfuture (async_step sim) = Some (launched sim)
   \<and> fst (test_for_new_results (\<lambda>k. False) (async_step sim)) = False
   \<and> stepfuture (async_step (async_step sim)) = Some (launched sim + 1)
   \<and> fst (test_for_new_results (\<lambda>k. k = launched sim) (async_step (async_step sim))) = False"
  by (simp add: async_step_def test_for_new_results_def is_future_ready_def Let_def)

subsection \<open>Adding particles\<close>

lemma length_set_radii [simp]: "length (set_radii vd i v) = length v"
  by (induction vd i v rule: set_radii.induct) (subst set_radii.simps, simp)

lemma nth_set_radii:
  "j < length v \<Longrightarrow>
   set_radii vd i v ! j = (if i \<le> j \<and> (j - i) mod 7 = 0 then vd else v ! j)"
proof (induction vd i v rule: set_radii.induct)
  case (1 thisvd i invec)
  show ?case
  proof (cases "i < length invec")
    case True
    have "set_radii thisvd i invec ! j = set_radii thisvd (i + 7) (invec[i := thisvd]) ! j"
      using True by (subst set_radii.simps) simp
    also have "\<dots> = (if i + 7 \<le> j \<and> (j - (i + 7)) mod 7 = 0 then thisvd
                     else invec[i := thisvd] ! j)"
      using 1 True by simp
    also have "\<dots> = (if i \<le> j \<and> (j - i) mod 7 = 0 then thisvd else invec ! j)"
    proof (cases "j = i")
      case True
      then show ?thesis using \<open>i < length invec\<close> by simp
    next
      case False
      have "(i + 7 \<le> j \<and> (j - (i + 7)) mod 7 = 0) = (i \<le> j \<and> (j - i) mod 7 = 0)"
      proof (cases "i + 7 \<le> j")
        case True
        then show ?thesis by presburger
      next
        case False
        then have "i \<le> j \<Longrightarrow> j - i < 7" by simp
        then show ?thesis using False \<open>j \<noteq> i\<close> by auto
      qed
      then show ?thesis using False by simp
    qed
    finally show ?thesis .
  next
    case False
    then show ?thesis using 1 by (subst set_radii.simps) auto
  qed
qed

lemma mod7_6: "(6 \<le> j \<and> (j - 6) mod 7 = 0) = (j mod 7 = (6::nat))"
  by presburger

text \<open>
  C9: for an input vector whose length is a nonzero multiple of 7, \<open>add_particles\<close>
  hands on a vector of the same length in which every 7th component (the core
  radius) is the current \<open>vdelta\<close> and every other component is the input's, so the
  radii of the input are never used; an empty input leaves the simulation unchanged.
\<close>

theorem add_particles_sets_radii:
  "(invec \<noteq> [] \<and> length invec mod 7 = 0 \<longrightarrow>
      (\<exists>w. add_particles mk add invec sim =
              Inr (sim\<lparr>vort := (if vort sim = [] then [mk w active lagrangian]
                                else butlast (vort sim) @ [add w (last (vort sim))])\<rparr>)
            \<and> length w = length invec
            \<and> (\<forall>j < length invec.
                  w ! j = (if j mod 7 = 6 then get_vdelta sim else invec ! j))))
   \<and> add_particles mk add [] sim = Inr sim"
  by (auto simp: add_particles_def Let_def nth_set_radii mod7_6
           intro!: exI [of _ "set_radii (get_vdelta sim) 6 invec"])

theorem add_particles_sets_radii_witness:
  "[1, 2, 3, 4, 5, 6, 99::real] \<noteq> [] \<and> length [1, 2, 3, 4, 5, 6, 99::real] mod 7 = 0
   \<and> (\<exists>w. add_particles (\<lambda>v e m. v) (\<lambda>v c. c @ v) [1, 2, 3, 4, 5, 6, 99]
             (Simulation_ctor \<lparr>nom_sep_scaled = 2, particle_overlap = 3\<rparr>)
           = Inr ((Simulation_ctor \<lparr>nom_sep_scaled = 2, particle_overlap = 3\<rparr>)\<lparr>vort := [w]\<rparr>)
         \<and> w ! 5 = 6
         \<and> w ! 6 = get_vdelta (Simulation_ctor \<lparr>nom_sep_scaled = 2, particle_overlap = 3\<rparr>
                                 :: real list Simulation))"
proof -
  let ?sim = "Simulation_ctor \<lparr>nom_sep_scaled = 2, particle_overlap = 3\<rparr> :: real list Simulation"
  let ?v = "[1, 2, 3, 4, 5, 6, 99::real]"
  have h: "?v \<noteq> [] \<and> length ?v mod 7 = 0" by simp
  have v: "vort ?sim = []" by (simp add: Simulation_ctor_def)
  from add_particles_sets_radii [of ?v "\<lambda>v e m. v" "\<lambda>v c. c @ v" ?sim] h
  obtain w where a: "add_particles (\<lambda>v e m. v) (\<lambda>v c. c @ v) ?v ?sim = Inr (?sim\<lparr>vort := [w]\<rparr>)"
    and n: "\<forall>j < length ?v. w ! j = (if j mod 7 = 6 then get_vdelta ?sim else ?v ! j)"
    unfolding v by auto
  from n have "w ! 5 = 6" and "w ! 6 = get_vdelta ?sim" by simp_all
  with a h show ?thesis by blast
qed

subsection \<open>Right-hand sides\<close>

lemma length_fold_upd:
  assumes "\<And>i r. length (upd i r) = length (r :: 'a list)"
  shows "length (fold upd ks r) = length r"
  using assms by (induction ks arbitrary: r) simp_all

lemma fold_blocks_nth:
  fixes upd :: "nat \<Rightarrow> 'a list \<Rightarrow> 'a list"
  assumes len: "\<And>i r. length (upd i r) = length r"
    and loc: "\<And>i r m. m < length r \<Longrightarrow>
        upd i r ! m = (if k * i \<le> m \<and> m < k * i + k then g i (m - k * i) (r ! m) else r ! m)"
  shows "m < length r \<Longrightarrow>
     fold upd [0..<n] r ! m = (if m < k * n then g (m div k) (m mod k) (r ! m) else r ! m)"
proof (induction n)
  case 0
  then show ?case by simp
next
  case (Suc n)
  let ?r = "fold upd [0..<n] r"
  have l: "length ?r = length r" by (rule length_fold_upd [OF len])
  have u: "fold upd [0..<Suc n] r ! m
             = (if k * n \<le> m \<and> m < k * n + k then g n (m - k * n) (?r ! m) else ?r ! m)"
    using loc [of m ?r n] Suc.prems l by simp
  consider (lt) "m < k * n" | (mid) "k * n \<le> m" "m < k * n + k" | (ge) "k * n + k \<le> m"
    by linarith
  then show ?case
  proof cases
    case lt
    then show ?thesis using u Suc by simp
  next
    case mid
    then have d: "m div k = n" by (intro div_nat_eqI) (simp_all add: mult.commute)
    have "m mod k = m - k * (m div k)" by (simp add: minus_mult_div_eq_mod)
    then have "m mod k = m - k * n" using d by simp
    then show ?thesis using u Suc mid d by simp
  next
    case ge
    then show ?thesis using u Suc by simp
  qed
qed

lemma length_inner_fold [simp]:
  "length (fold (\<lambda>j r. r[c + j := r ! (c + j) - h j]) [0..<q] (r :: real list)) = length r"
  by (induction q) simp_all

lemma inner_fold_nth:
  "m < length r \<Longrightarrow>
   fold (\<lambda>j r. r[c + j := r ! (c + j) - h j]) [0..<q] (r :: real list) ! m
     = (if c \<le> m \<and> m < c + q then r ! m - h (m - c) else r ! m)"
proof (induction q)
  case 0
  then show ?case by simp
next
  case (Suc q)
  show ?case
  proof (cases "m = c + q")
    case True
    then show ?thesis using Suc by simp
  next
    case False
    then show ?thesis using Suc by auto
  qed
qed

lemma subtract_bc_nth:
  assumes "m < length r"
  shows "fold (\<lambda>i rhs. fold (\<lambda>j rhs. rhs[k * i + j := rhs ! (k * i + j) - tb ! j ! i]) [0..<k] rhs)
           [0..<n] (r :: real list) ! m
         = (if m < k * n then r ! m - tb ! (m mod k) ! (m div k) else r ! m)"
  using assms
  by (rule fold_blocks_nth [where g = "\<lambda>i j v. v - tb ! j ! i", rotated 2])
     (simp_all add: inner_fold_nth)

lemma length_subtract_bc [simp]:
  "length (fold (\<lambda>i rhs. fold (\<lambda>j rhs. rhs[k * i + j := rhs ! (k * i + j) - tb ! j ! i]) [0..<k] rhs)
           [0..<n] (r :: real list)) = length r"
  by (rule length_fold_upd) simp


lemma project1_nth:
  "m < length r \<Longrightarrow>
   fold (\<lambda>i rhs. rhs[i := a i]) [0..<n] (r :: real list) ! m = (if m < n then a m else r ! m)"
  using nth_assign_range [of m r 0 n a] by (simp add: assign_range_def)

lemma project2_nth:
  assumes "m < length r"
  shows "fold (\<lambda>i rhs. rhs[2 * i + 0 := a i, 2 * i + 1 := b i]) [0..<n] (r :: real list) ! m
     = (if m < 2 * n then (if m mod 2 = 0 then a (m div 2) else b (m div 2)) else r ! m)"
  using assms
  by (rule fold_blocks_nth [where g = "\<lambda>i j v. if j = 0 then a i else b i", rotated 2])
     (auto simp: nth_list_update)

lemma project3_nth:
  assumes "m < length r"
  shows "fold (\<lambda>i rhs. rhs[3 * i + 0 := a i, 3 * i + 1 := b i, 3 * i + 2 := c i])
           [0..<n] (r :: real list) ! m
     = (if m < 3 * n
        then (if m mod 3 = 0 then a (m div 3) else if m mod 3 = 1 then b (m div 3) else c (m div 3))
        else r ! m)"
  using assms
  by (rule fold_blocks_nth
        [where g = "\<lambda>i j v. if j = 0 then a i else if j = 1 then b i else c i", rotated 2])
     (auto simp: nth_list_update)

lemma project2_nth_Suc:
  "m < length r \<Longrightarrow>
   fold (\<lambda>i rhs. rhs[2 * i := a i, Suc (2 * i) := b i]) [0..<n] (r :: real list) ! m
     = (if m < 2 * n then (if m mod 2 = 0 then a (m div 2) else b (m div 2)) else r ! m)"
  using project2_nth [of m r a b n] by simp

lemma project3_nth_Suc:
  "m < length r \<Longrightarrow>
   fold (\<lambda>i rhs. rhs[3 * i := a i, Suc (3 * i) := b i, Suc (Suc (3 * i)) := c i])
      [0..<n] (r :: real list) ! m
     = (if m < 3 * n
        then (if m mod 3 = 0 then a (m div 3) else if m mod 3 = 1 then b (m div 3) else c (m div 3))
        else r ! m)"
  using project3_nth [of m r a b c n] by (simp add: numeral_2_eq_2)

lemma length_project [simp]:
  "length (fold (\<lambda>i rhs. rhs[i := a i]) [0..<n] (r :: real list)) = length r"
  "length (fold (\<lambda>i rhs. rhs[2 * i + 0 := a i, 2 * i + 1 := b i]) [0..<n] r) = length r"
  "length (fold (\<lambda>i rhs. rhs[3 * i + 0 := a i, 3 * i + 1 := b i, 3 * i + 2 := c i]) [0..<n] r)
     = length r"
  by (rule length_fold_upd, simp)+

lemma vels_to_rhs_panels_passes:
  assumes "panels_sized targ" and "0 < length (bc targ)"
  shows "vels_to_rhs_panels targ =
     Inr (fold (\<lambda>i rhs. fold (\<lambda>j rhs. rhs[length (bc targ) * i + j
                    := rhs ! (length (bc targ) * i + j) - bc targ ! j ! i])
                  [0..<length (bc targ)] rhs)
            [0..<np targ]
            (if length (bc targ) = 1 then
               fold (\<lambda>i rhs. rhs[i := - dot_product (nth3 (pu targ) i)
                                           (nth3 (get3 (b_surf targ) 2) i)])
                 [0..<np targ] (replicate (length (bc targ) * np targ) 0)
             else if length (bc targ) = 2 then
               fold (\<lambda>i rhs. rhs[2 * i + 0 := - dot_product (nth3 (pu targ) i)
                                                   (nth3 (get3 (b_surf targ) 0) i),
                                  2 * i + 1 := - dot_product (nth3 (pu targ) i)
                                                   (nth3 (get3 (b_surf targ) 1) i)])
                 [0..<np targ] (replicate (length (bc targ) * np targ) 0)
             else if length (bc targ) = 3 then
               fold (\<lambda>i rhs. rhs[3 * i + 0 := - dot_product (nth3 (pu targ) i)
                                                   (nth3 (get3 (b_surf targ) 0) i),
                                  3 * i + 1 := - dot_product (nth3 (pu targ) i)
                                                   (nth3 (get3 (b_surf targ) 1) i),
                                  3 * i + 2 := - dot_product (nth3 (pu targ) i)
                                                   (nth3 (get3 (b_surf targ) 2) i)])
                 [0..<np targ] (replicate (length (bc targ) * np targ) 0)
             else replicate (length (bc targ) * np targ) 0))"
proof -
  have "length (bc targ ! 0) = np targ"
    using assms by (simp add: panels_sized_def list_all_length)
  then show ?thesis
    using assms unfolding vels_to_rhs_panels_def Let_def panels_sized_def sized3_def resize_def
    by simp
qed


text \<open>
  C4: for a panel collection with \<open>n\<close> panels whose arrays have \<open>n\<close> entries and
  with \<open>k\<close> boundary-condition components (\<open>k\<close> one of 1, 2, 3), RHS assembly
  returns a vector of length \<open>k n\<close> whose entries for panel \<open>i\<close>, with velocity
  \<open>v\<close>, basis \<open>t1, t2, n\<close> and boundary values \<open>b\<close>, are
  \<open>- v \<cdot> n - b 0\<close> for \<open>k = 1\<close>;
  \<open>- v \<cdot> t1 - b 0\<close>, \<open>- v \<cdot> t2 - b 1\<close> for \<open>k = 2\<close>;
  \<open>- v \<cdot> t1 - b 0\<close>, \<open>- v \<cdot> t2 - b 1\<close>, \<open>- v \<cdot> n - b 2\<close> for \<open>k = 3\<close>.
\<close>

theorem vels_to_rhs_panels_entries:
  assumes "panels_sized targ" and "length (bc targ) = k" and "k = 1 \<or> k = 2 \<or> k = 3"
  shows "\<exists>rhs. vels_to_rhs_panels targ = Inr rhs \<and> length rhs = k * np targ
     \<and> (\<forall>i < np targ.
          (k = 1 \<longrightarrow>
             rhs ! i = - dot_product (nth3 (pu targ) i) (nth3 (get3 (b_surf targ) 2) i)
                       - bc targ ! 0 ! i)
        \<and> (k = 2 \<longrightarrow>
             rhs ! (2 * i) = - dot_product (nth3 (pu targ) i) (nth3 (get3 (b_surf targ) 0) i)
                             - bc targ ! 0 ! i
           \<and> rhs ! (2 * i + 1) = - dot_product (nth3 (pu targ) i) (nth3 (get3 (b_surf targ) 1) i)
                                 - bc targ ! 1 ! i)
        \<and> (k = 3 \<longrightarrow>
             rhs ! (3 * i) = - dot_product (nth3 (pu targ) i) (nth3 (get3 (b_surf targ) 0) i)
                             - bc targ ! 0 ! i
           \<and> rhs ! (3 * i + 1) = - dot_product (nth3 (pu targ) i) (nth3 (get3 (b_surf targ) 1) i)
                                 - bc targ ! 1 ! i
           \<and> rhs ! (3 * i + 2) = - dot_product (nth3 (pu targ) i) (nth3 (get3 (b_surf targ) 2) i)
                                 - bc targ ! 2 ! i))"
proof -
  define L where "L = length (bc targ)"
  define n where "n = np targ"
  define v where "v = (\<lambda>i. nth3 (pu targ) i)"
  define t1 where "t1 = (\<lambda>i. nth3 (get3 (b_surf targ) 0) i)"
  define t2 where "t2 = (\<lambda>i. nth3 (get3 (b_surf targ) 1) i)"
  define nr where "nr = (\<lambda>i. nth3 (get3 (b_surf targ) 2) i)"
  define p where "p =
    (if L = 1 then
       fold (\<lambda>i rhs. rhs[i := - dot_product (v i) (nr i)]) [0..<n] (replicate (L * n) 0)
     else if L = 2 then
       fold (\<lambda>i rhs. rhs[2 * i + 0 := - dot_product (v i) (t1 i),
                          2 * i + 1 := - dot_product (v i) (t2 i)]) [0..<n] (replicate (L * n) 0)
     else if L = 3 then
       fold (\<lambda>i rhs. rhs[3 * i + 0 := - dot_product (v i) (t1 i),
                          3 * i + 1 := - dot_product (v i) (t2 i),
                          3 * i + 2 := - dot_product (v i) (nr i)]) [0..<n] (replicate (L * n) 0)
     else replicate (L * n) 0)"
  define rhs where "rhs =
    fold (\<lambda>i rhs. fold (\<lambda>j rhs. rhs[L * i + j := rhs ! (L * i + j) - bc targ ! j ! i]) [0..<L] rhs)
      [0..<n] p"
  have pos: "0 < length (bc targ)" using assms(2,3) by auto
  have r: "vels_to_rhs_panels targ = Inr rhs"
    using vels_to_rhs_panels_passes [OF assms(1) pos]
    unfolding rhs_def p_def L_def n_def v_def t1_def t2_def nr_def .
  have lp: "length p = L * n" unfolding p_def by (simp add: length_fold_upd)
  have lr: "length rhs = L * n" unfolding rhs_def using lp by simp
  have sub: "rhs ! m = p ! m - bc targ ! (m mod L) ! (m div L)" if "m < L * n" for m
    unfolding rhs_def using subtract_bc_nth [of m p L "bc targ" n] lp that by simp
  have Lk: "L = k" using assms(2) L_def by simp
  have e1: "rhs ! i = - dot_product (v i) (nr i) - bc targ ! 0 ! i" if "k = 1" "i < n" for i
  proof -
    have "p ! i = - dot_product (v i) (nr i)"
      using that Lk by (simp add: p_def project1_nth)
    then show ?thesis using sub [of i] that Lk by simp
  qed
  have e2: "rhs ! (2 * i) = - dot_product (v i) (t1 i) - bc targ ! 0 ! i
            \<and> rhs ! (2 * i + 1) = - dot_product (v i) (t2 i) - bc targ ! 1 ! i"
    if "k = 2" "i < n" for i
  proof -
    have b: "2 * i < 2 * n" "2 * i + 1 < 2 * n" using that by simp_all
    have "p ! (2 * i) = - dot_product (v i) (t1 i)"
      and "p ! (2 * i + 1) = - dot_product (v i) (t2 i)"
      using that Lk b by (simp_all add: p_def project2_nth_Suc)
    then show ?thesis using sub [of "2 * i"] sub [of "2 * i + 1"] that Lk b by simp
  qed
  have d3: "(3 * i + 1) div 3 = i \<and> (3 * i + 2) div 3 = i
            \<and> (3 * i + 1) mod 3 = 1 \<and> (3 * i + 2) mod 3 = 2" for i :: nat
    by presburger
  have d3s: "Suc (3 * i) div 3 = i \<and> Suc (Suc (3 * i)) div 3 = i
            \<and> Suc (3 * i) mod 3 = 1 \<and> Suc (Suc (3 * i)) mod 3 = 2" for i :: nat
    by presburger
  have e3: "rhs ! (3 * i) = - dot_product (v i) (t1 i) - bc targ ! 0 ! i
            \<and> rhs ! (3 * i + 1) = - dot_product (v i) (t2 i) - bc targ ! 1 ! i
            \<and> rhs ! (3 * i + 2) = - dot_product (v i) (nr i) - bc targ ! 2 ! i"
    if "k = 3" "i < n" for i
  proof -
    have b: "3 * i < 3 * n" "3 * i + 1 < 3 * n" "3 * i + 2 < 3 * n" using that by simp_all
    have "p ! (3 * i) = - dot_product (v i) (t1 i)"
      and "p ! (3 * i + 1) = - dot_product (v i) (t2 i)"
      and "p ! (3 * i + 2) = - dot_product (v i) (nr i)"
      using that Lk b by (simp_all add: p_def project3_nth_Suc d3 d3s)
    then show ?thesis
      using sub [of "3 * i"] sub [of "3 * i + 1"] sub [of "3 * i + 2"] that Lk b
      by (simp add: d3 d3s)
  qed
  show ?thesis
    using r lr e1 e2 e3 Lk
    unfolding n_def v_def t1_def t2_def nr_def
    by (intro exI [of _ rhs]) simp
qed


theorem vels_to_rhs_panels_entries_witness:
  "panels_sized ((Surfaces_init reactive fixed None)
      \<lparr>np := 1, b_surf := (([1], [0], [0]), ([0], [1], [0]), ([0], [0], [1])),
       pu := ([1], [2], [3]), bc := [[10], [20], [30]]\<rparr>)
   \<and> (\<exists>rhs. vels_to_rhs_panels ((Surfaces_init reactive fixed None)
      \<lparr>np := 1, b_surf := (([1], [0], [0]), ([0], [1], [0]), ([0], [0], [1])),
       pu := ([1], [2], [3]), bc := [[10], [20], [30]]\<rparr>) = Inr rhs
      \<and> length rhs = 3 \<and> rhs ! 0 = - 11 \<and> rhs ! 1 = - 22 \<and> rhs ! 2 = - 33)"
proof -
  let ?t = "(Surfaces_init reactive fixed None)
      \<lparr>np := 1, b_surf := (([1], [0], [0]), ([0], [1], [0]), ([0], [0], [1])),
       pu := ([1], [2], [3]), bc := [[10], [20], [30]]\<rparr>"
  have h: "panels_sized ?t" by (simp add: panels_sized_def sized3_def)
  have k: "length (bc ?t) = 3" by simp
  from vels_to_rhs_panels_entries [OF h k]
  obtain rhs where r: "vels_to_rhs_panels ?t = Inr rhs" and l: "length rhs = 3 * np ?t"
    and e: "\<forall>i < np ?t.
        rhs ! (3 * i) = - dot_product (nth3 (pu ?t) i) (nth3 (get3 (b_surf ?t) 0) i)
                        - bc ?t ! 0 ! i
      \<and> rhs ! (3 * i + 1) = - dot_product (nth3 (pu ?t) i) (nth3 (get3 (b_surf ?t) 1) i)
                            - bc ?t ! 1 ! i
      \<and> rhs ! (3 * i + 2) = - dot_product (nth3 (pu ?t) i) (nth3 (get3 (b_surf ?t) 2) i)
                            - bc ?t ! 2 ! i"
    by auto
  from e have "rhs ! 0 = - 11 \<and> rhs ! 1 = - 22 \<and> rhs ! 2 = - 33"
    by (simp add: numeral_2_eq_2)
  with h r l show ?thesis by simp
qed

subsection \<open>Transforming a panel collection\<close>

text \<open>The constructor, run on the triangle, gives the collection \<open>tri\<close>.\<close>

lemma u32_small_values: "u32 1 = 1" "u32 (Suc 0) = Suc 0" "u32 3 = 3" "u32 0 = 0"
  by (simp_all add: u32_def)

lemma panel_basis_tri:
  "panel_basis ([0, 1, 0], [0, 0, 1], [1, 1, 1]) [0, Suc 0, 2] 0
     = ((1, 0, 0), (0, 1, 0), (0, 0, 1), 1 / 2)"
  by (simp add: panel_basis_def Let_def)

lemma assign_range_3: "assign_range 0 3 f [a, b, c] = [f 0, f 1, f 2]"
  by (simp add: assign_range_def eval_nat_numeral)

lemma assign_range_1: "assign_range 0 1 f [a] = [f 0]" "assign_range 0 (Suc 0) f [a] = [f 0]"
  by (simp_all add: assign_range_def)

lemma resize_empty: "resize 3 [] = [0, 0, 0]" "resize 1 [] = [0]" "resize (Suc 0) [] = [0]"
  "resize (Suc (Suc (Suc 0))) [] = [0, 0, 0]"
  by (simp_all add: resize_def eval_nat_numeral)

lemma tri_indices_good: "(\<forall>i<3. [0, Suc 0, 2] ! i < 3)"
  by (simp add: All_less_Suc numeral_3_eq_3)

lemma ctor_tri:
  "Surfaces_ctor [0, 0, 1, 1, 0, 1, 0, 1, 1] [0, 1, 2] [0] reactive bodybound (Some wing) = Inr tri"
  by (simp add: Surfaces_ctor_def Surfaces_init_def ElementBase_ctor_def Let_def
        fold_index_flag tri_indices_good assign_range_3 assign_range_1 resize_empty
        then_do_def compute_bases_def u32_small_values panel_basis_tri ctor_values_def
        vortex_sheet_to_panel_strength_def set_geom_center_def tri_def)

text \<open>
  \<open>compute_bases\<close> starts at the number of bases it already holds: called with that
  number it changes nothing, and so \<open>transform\<close> leaves every basis and area as it was,
  whatever the base class does to the nodes.
\<close>

lemma resize_same: "length xs = k \<Longrightarrow> resize k xs = xs"
  by (simp add: resize_def)

lemma map3_resize_same: "sized3 k a \<Longrightarrow> map3 (resize k) a = a"
  by (cases a) (simp add: sized3_def resize_same)

lemma compute_bases_watermark:
  assumes "sized3 k (get3 (b_surf s) 0)" and "sized3 k (get3 (b_surf s) 1)"
    and "sized3 k (get3 (b_surf s) 2)" and "length (area s) = k"
    and "u32 k = k" and "compute_bases k s = Inr s'"
  shows "s' = s"
proof -
  obtain b0 b1 b2 where b: "b_surf s = (b0, b1, b2)" by (cases "b_surf s")
  have n: "u32 (length (get3 b0 0)) = k" using assms(1,5) b by (simp add: sized3_def)
  show ?thesis
    using assms b n
    by (auto simp: compute_bases_def Let_def map3_resize_same resize_same split: if_splits)
qed

lemma transform_bases_unchanged:
  assumes "sized3 (np s) (get3 (b_surf s) 0)" and "sized3 (np s) (get3 (b_surf s) 1)"
    and "sized3 (np s) (get3 (b_surf s) 2)" and "length (area s) = np s"
    and "u32 (np s) = np s" and "transform base_transform t s = Inr s'"
  shows "b_surf s' = b_surf s \<and> area s' = area s \<and> base s' = base_transform t (base s)"
proof -
  let ?s1 = "s\<lparr>base := base_transform t (base s)\<rparr>"
  from assms(6) obtain s2 where c: "compute_bases (u32 (np ?s1)) ?s1 = Inr s2"
    by (auto simp: transform_def Let_def then_do_def split: sum.splits)
  have "s2 = ?s1"
    using compute_bases_watermark [of "np s" ?s1 s2] assms(1-5) c by simp
  then show ?thesis
    using assms(6) c
    by (auto simp: transform_def Let_def then_do_def split: sum.splits option.splits if_splits)
qed

lemma transform_tri:
  "transform quarter_turn 1 tri =
     Inr (tri\<lparr>base := (base tri)\<lparr>x_eb := ([0, 0, - 1], [0, 1, 0], [1, 1, 1])\<rparr>,
              tc := Some (- 1 / 4, 1 / 4, 3 / 4)\<rparr>)"
  by (simp add: transform_def quarter_turn_def tri_def Let_def then_do_def compute_bases_def
        u32_small_values resize_def wing_def)

lemma spec_tri:
  "spec_panel_basis (0, 0, 1) (0, 1, 1) (- 1, 0, 1) = ((0, 1, 0), (- 1, 0, 0), (0, 0, 1), 1 / 2)"
  by (simp add: spec_panel_basis_def normalize3_def Let_def)

text \<open>
  C7: \<open>transform\<close> calls \<open>compute_bases(np)\<close>, which recomputes only the panels past
  the ones it already holds, so no basis is recomputed. For the one-panel collection
  on the turning body, after \<open>transform\<close> the stored tangents, normal and area are
  still those of the untransformed triangle, \<open>(1,0,0), (0,1,0), (0,0,1), 1/2\<close>, while
  the two-edge construction on the transformed nodes gives the tangents
  \<open>(0,1,0), (-1,0,0)\<close>.
\<close>

theorem transform_keeps_stale_bases:
  "\<exists>s s'. Surfaces_ctor [0, 0, 1, 1, 0, 1, 0, 1, 1] [0, 1, 2] [0] reactive bodybound (Some wing)
             = Inr s
     \<and> transform quarter_turn 1 s = Inr s'
     \<and> (nth3 (get3 (b_surf s') 0) 0, nth3 (get3 (b_surf s') 1) 0, nth3 (get3 (b_surf s') 2) 0,
         area s' ! 0) = ((1, 0, 0), (0, 1, 0), (0, 0, 1), 1 / 2)
     \<and> spec_panel_basis (nth3 (x_eb (base s')) (idx s' ! 0)) (nth3 (x_eb (base s')) (idx s' ! 1))
          (nth3 (x_eb (base s')) (idx s' ! 2)) = ((0, 1, 0), (- 1, 0, 0), (0, 0, 1), 1 / 2)"
proof -
  let ?s' = "tri\<lparr>base := (base tri)\<lparr>x_eb := ([0, 0, - 1], [0, 1, 0], [1, 1, 1])\<rparr>,
              tc := Some (- 1 / 4, 1 / 4, 3 / 4)\<rparr>"
  have b: "(nth3 (get3 (b_surf ?s') 0) 0, nth3 (get3 (b_surf ?s') 1) 0,
            nth3 (get3 (b_surf ?s') 2) 0, area ?s' ! 0) = ((1, 0, 0), (0, 1, 0), (0, 0, 1), 1 / 2)"
    by (simp add: tri_def)
  have x: "nth3 (x_eb (base ?s')) (idx ?s' ! 0) = (0, 0, 1)"
    "nth3 (x_eb (base ?s')) (idx ?s' ! 1) = (0, 1, 1)"
    "nth3 (x_eb (base ?s')) (idx ?s' ! 2) = (- 1, 0, 1)"
    by (simp_all add: tri_def)
  show ?thesis
    using ctor_tri transform_tri b spec_tri unfolding x [symmetric]
    by blast
qed

end
